theory Spec2Isabelle
  imports Main "HOL-Library.Word"
begin

section \<open>Bytes, machine integers and pitched memory\<close>

text \<open>
  The repository consists of two headers: \<^verbatim>\<open>Common/UtilNPP/ImageIO.h\<close> (loading and
  saving host images through the FreeImage library) and \<^verbatim>\<open>src/MipMapChunk.h\<close> (one
  level of a mip chain, produced by the NPP resize primitive). Both are embedded below,
  function by function. FreeImage and NPP are libraries outside the repository and
  enter as parameters; the image classes of \<^verbatim>\<open>ImagesCPU.h\<close> and \<^verbatim>\<open>ImagesNPP.h\<close> and
  the macros of \<^verbatim>\<open>Exceptions.h\<close> are not part of the sources and are modelled from the
  specification where a definition says so.
\<close>

type_synonym Npp8u = "8 word"

text \<open>
  What a function can end with instead of returning. \<open>Exception\<close> is an
  \<^verbatim>\<open>npp::Exception\<close> with its message, thrown by the \<^verbatim>\<open>NPP_ASSERT\<close> family, by
  \<^verbatim>\<open>NPP_CHECK_NPP\<close> and by \<^verbatim>\<open>FreeImageErrorHandler\<close>. The other two are undefined
  behaviour in C++, recorded as outcomes of their own: the use of a pointer variable that
  was never assigned, and a \<^verbatim>\<open>memcpy\<close> that leaves one of its buffers.
\<close>

datatype error = Exception string | UninitialisedRead | OutOfBounds

text \<open>
  \<^verbatim>\<open>unsigned int\<close> and \<^verbatim>\<open>int\<close> are 32 bits wide, \<^verbatim>\<open>size_t\<close> and pointers 64 bits.
  \<open>uint32\<close> is the conversion to \<^verbatim>\<open>unsigned int\<close> (and the wrap-around of its
  arithmetic), \<open>int32\<close> the conversion to \<^verbatim>\<open>int\<close>, \<open>size_t\<close> the conversion of a
  byte count to \<^verbatim>\<open>size_t\<close>.
\<close>

definition uint32 :: "int \<Rightarrow> int" where
  "uint32 x = x mod 2 ^ 32"

definition int32 :: "int \<Rightarrow> int" where
  "int32 x = (x + 2 ^ 31) mod 2 ^ 32 - 2 ^ 31"

definition size_t :: "int \<Rightarrow> nat" where
  "size_t x = nat (x mod 2 ^ 64)"

text \<open>
  A buffer is the list of its bytes; a pointer into it is an offset from its first byte
  (an \<open>int\<close>: the loops below step a pointer below the start of its buffer after the
  last row). \<open>memcpy dst d src s n\<close> is \<^verbatim>\<open>memcpy(dst + d, src + s, n)\<close> and gives the
  new content of \<open>dst\<close>, or \<open>None\<close> when the \<open>n\<close> bytes do not lie inside both
  buffers.
\<close>

definition memcpy :: "Npp8u list \<Rightarrow> int \<Rightarrow> Npp8u list \<Rightarrow> int \<Rightarrow> nat \<Rightarrow> Npp8u list option" where
  "memcpy dst d src s n =
     (if 0 \<le> d \<and> nat d + n \<le> length dst \<and> 0 \<le> s \<and> nat s + n \<le> length src
      then Some (take (nat d) dst @ take n (drop (nat s) src) @ drop (nat d + n) dst)
      else None)"

text \<open>
  The row loops of \<^verbatim>\<open>loadImage\<close> and \<^verbatim>\<open>saveImage\<close> (lines 89-94, 150-155 and 176-181):
  \<^verbatim>\<open>for (iLine = 0; iLine < height; ++iLine)
    { memcpy(pDstLine, pSrcLine, n); pSrcLine += srcStep; pDstLine += dstStep; }\<close>
  with the number of iterations still to run as first argument. The loaders step the
  source pointer down (\<open>srcStep = - nSrcPitch\<close>) and the destination pointer up, the
  savers the other way round.
\<close>

fun copy_lines ::
  "nat \<Rightarrow> nat \<Rightarrow> Npp8u list \<Rightarrow> int \<Rightarrow> int \<Rightarrow> Npp8u list \<Rightarrow> int \<Rightarrow> int \<Rightarrow> Npp8u list option" where
  "copy_lines 0 n src pSrcLine srcStep dst pDstLine dstStep = Some dst"
| "copy_lines (Suc k) n src pSrcLine srcStep dst pDstLine dstStep =
     (case memcpy dst pDstLine src pSrcLine n of
        None \<Rightarrow> None
      | Some dst' \<Rightarrow>
          copy_lines k n src (pSrcLine + srcStep) srcStep dst' (pDstLine + dstStep) dstStep)"

section \<open>Host images\<close>

text \<open>
  \<^verbatim>\<open>ImageCPU_8u_C1\<close>, \<^verbatim>\<open>ImageCPU_8u_C4\<close> and \<^verbatim>\<open>ImageNPP_8u_C4\<close> are packed images:
  a size, a pitch (bytes from one row to the next) and the bytes. A default-constructed
  image is empty.
\<close>

record Image =
  width :: nat
  height :: nat
  pitch :: nat
  data :: "Npp8u list"

definition empty_Image :: Image where
  "empty_Image = \<lparr>width = 0, height = 0, pitch = 0, data = []\<rparr>"


text \<open>
  The host allocator behind the image constructors: the padding it adds to a row of a
  given number of bytes, the bytes found in fresh memory, and the requests (row bytes,
  rows) it cannot satisfy.
\<close>

record HostAllocator =
  padding :: "nat \<Rightarrow> nat \<Rightarrow> nat"
  garbage :: "nat \<Rightarrow> Npp8u"
  exhausted :: "nat \<Rightarrow> nat \<Rightarrow> bool"

text \<open>
  Modelled from the spec: the constructor \<^verbatim>\<open>ImageCPU_8u_CN(width, height)\<close> is declared in
  \<^verbatim>\<open>ImagesCPU.h\<close>, which is not part of the sources. The spec (4.1): it allocates a
  pitched region of at least \<open>width * bytesPerPixel\<close> bytes per row and fails with
  \<open>AllocationError\<close> if \<open>width <= 0 || height <= 0\<close> or the host allocator cannot
  satisfy the request.
\<close>

definition ImageCPU_new :: "HostAllocator \<Rightarrow> nat \<Rightarrow> nat \<Rightarrow> nat \<Rightarrow> error + Image" where
  "ImageCPU_new al N w h =
     (if w = 0 \<or> h = 0 \<or> exhausted al (w * N) h then Inl (Exception ''AllocationError'')
      else let p = w * N + padding al (w * N) h
           in Inr \<lparr>width = w, height = h, pitch = p, data = map (garbage al) [0..<p * h]\<rparr>)"

section \<open>The FreeImage library\<close>

datatype FREE_IMAGE_FORMAT = FIF_UNKNOWN | FIF_PGM | FIF_PNG | FIF_OTHER nat

datatype FREE_IMAGE_COLOR_TYPE =
  FIC_MINISWHITE | FIC_MINISBLACK | FIC_RGB | FIC_PALETTE | FIC_RGBALPHA | FIC_CMYK

text \<open>
  A bitmap behind a non-null \<^verbatim>\<open>FIBITMAP*\<close>; the fields are named as the accessors the
  code reads them with. FreeImage keeps the scanlines bottom-up: scanline 0, at offset 0
  of the bits, is the bottom row of the picture.
\<close>

record FIBITMAP =
  FreeImage_GetWidth :: nat
  FreeImage_GetHeight :: nat
  FreeImage_GetBPP :: nat
  FreeImage_GetColorType :: FREE_IMAGE_COLOR_TYPE
  FreeImage_GetPitch :: nat
  FreeImage_GetBits :: "Npp8u list"

text \<open>Scanline \<open>r\<close> of a bitmap, as stored: its first \<open>n\<close> bytes.\<close>

definition scanline :: "nat \<Rightarrow> FIBITMAP \<Rightarrow> nat \<Rightarrow> Npp8u list" where
  "scanline n b r = take n (drop (r * FreeImage_GetPitch b) (FreeImage_GetBits b))"

text \<open>
  What \<^verbatim>\<open>FreeImage_Load\<close> and \<^verbatim>\<open>FreeImage_Save\<close> do: they succeed, or they fail,
  with or without a message for the output-message handler.
\<close>

datatype load_result = Loaded FIBITMAP | LoadFailed "string option"

datatype save_result = Saved | SaveFailed "string option"

text \<open>
  The library functions the code calls, over a type \<open>'w\<close> of states of the file system.
\<close>

record 'w FreeImage =
  FreeImage_GetFileType :: "'w \<Rightarrow> string \<Rightarrow> FREE_IMAGE_FORMAT"
  FreeImage_GetFIFFromFilename :: "string \<Rightarrow> FREE_IMAGE_FORMAT"
  FreeImage_FIFSupportsReading :: "FREE_IMAGE_FORMAT \<Rightarrow> bool"
  FreeImage_Load :: "'w \<Rightarrow> FREE_IMAGE_FORMAT \<Rightarrow> string \<Rightarrow> load_result"
  FreeImage_ConvertTo32Bits :: "FIBITMAP \<Rightarrow> FIBITMAP option"
  FreeImage_Allocate :: "int \<Rightarrow> int \<Rightarrow> int \<Rightarrow> FIBITMAP option"
  FreeImage_Save :: "'w \<Rightarrow> FREE_IMAGE_FORMAT \<Rightarrow> FIBITMAP \<Rightarrow> string \<Rightarrow> save_result \<times> 'w"

text \<open>
  The state the functions of \<^verbatim>\<open>ImageIO.h\<close> run in: the file system, and whether
  \<^verbatim>\<open>FreeImageErrorHandler\<close> is installed as FreeImage's output-message handler (a global
  setting of the library).
\<close>

record 'w io_state =
  files :: 'w
  handler_installed :: bool

text \<open>
  \<^verbatim>\<open>FreeImageErrorHandler\<close> (lines 43-47) throws an exception with the message it is
  given. A FreeImage call that fails with a message therefore throws when the handler is
  installed, and returns its failure value otherwise.
\<close>

definition FreeImageErrorHandler :: "string \<Rightarrow> error" where
  "FreeImageErrorHandler zMessage = Exception zMessage"

definition call_Load ::
  "'w FreeImage \<Rightarrow> 'w io_state \<Rightarrow> FREE_IMAGE_FORMAT \<Rightarrow> string \<Rightarrow> error + FIBITMAP option" where
  "call_Load fi st fif name =
     (case FreeImage_Load fi (files st) fif name of
        Loaded b \<Rightarrow> Inr (Some b)
      | LoadFailed None \<Rightarrow> Inr None
      | LoadFailed (Some msg) \<Rightarrow>
          if handler_installed st then Inl (FreeImageErrorHandler msg) else Inr None)"

definition call_Save ::
  "'w FreeImage \<Rightarrow> 'w io_state \<Rightarrow> FREE_IMAGE_FORMAT \<Rightarrow> FIBITMAP \<Rightarrow> string \<Rightarrow>
     (error + bool) \<times> 'w io_state" where
  "call_Save fi st fif b name =
     (let (r, w') = FreeImage_Save fi (files st) fif b name;
          st' = st\<lparr>files := w'\<rparr>
      in case r of
           Saved \<Rightarrow> (Inr True, st')
         | SaveFailed None \<Rightarrow> (Inr False, st')
         | SaveFailed (Some msg) \<Rightarrow>
             if handler_installed st then (Inl (FreeImageErrorHandler msg), st')
             else (Inr False, st'))"

text \<open>
  Modelled from the spec: the macros \<^verbatim>\<open>NPP_ASSERT\<close>, \<^verbatim>\<open>NPP_ASSERT_NOT_NULL\<close> and
  \<^verbatim>\<open>NPP_ASSERT_MSG\<close> are defined in \<^verbatim>\<open>Exceptions.h\<close>, which is not part of the sources.
  The spec (4.3, 7): a failed check raises an error that propagates to the caller. The
  message is the text of the failed condition.
\<close>

definition NPP_ASSERT :: "bool \<Rightarrow> string \<Rightarrow> error + unit" where
  "NPP_ASSERT C text = (if C then Inr () else Inl (Exception text))"

section \<open>Loading a gray-scale image (lines 52-99)\<close>

text \<open>
  A local variable declared without an initialiser, as \<^verbatim>\<open>FIBITMAP* pBitmap;\<close> in line 68,
  holds no value until it is assigned.
\<close>

datatype 'a local_var = Unassigned | Assigned 'a

text \<open>
  Lines 58-64: the format is read from the file's signature and, where there is none,
  guessed from the file name.
\<close>

definition loadImage_eFormat :: "'w FreeImage \<Rightarrow> 'w io_state \<Rightarrow> string \<Rightarrow> FREE_IMAGE_FORMAT" where
  "loadImage_eFormat fi st rFileName =
     (let eFormat = FreeImage_GetFileType fi (files st) rFileName
      in if eFormat = FIF_UNKNOWN then FreeImage_GetFIFFromFilename fi rFileName else eFormat)"

text \<open>
  Lines 58-73: the variable \<open>pBitmap\<close> as control reaches the check of line 75, or the
  exception thrown before that. \<^verbatim>\<open>FreeImage_Load\<close> is only called, and \<open>pBitmap\<close>
  only assigned, when the plugin of the format can read.
\<close>

definition loadImage_pBitmap ::
  "'w FreeImage \<Rightarrow> 'w io_state \<Rightarrow> string \<Rightarrow> error + FIBITMAP option local_var" where
  "loadImage_pBitmap fi st rFileName =
     (let eFormat = loadImage_eFormat fi st rFileName
      in case NPP_ASSERT (eFormat \<noteq> FIF_UNKNOWN) ''eFormat != FIF_UNKNOWN'' of
           Inl e \<Rightarrow> Inl e
         | Inr _ \<Rightarrow>
             if FreeImage_FIFSupportsReading fi eFormat
             then (case call_Load fi st eFormat rFileName of
                     Inl e \<Rightarrow> Inl e
                   | Inr p \<Rightarrow> Inr (Assigned p))
             else Inr Unassigned)"

text \<open>
  Lines 75-94: the checks on the bitmap, the fresh image \<open>oImage\<close> and the copy of the
  rows into it. \<open>pSrcLine\<close> starts at the last scanline, its offset computed in
  \<^verbatim>\<open>unsigned int\<close>, and steps down; \<open>pDstLine\<close> starts at row 0 and steps up.
\<close>

definition loadImage_oImage :: "HostAllocator \<Rightarrow> FIBITMAP option local_var \<Rightarrow> error + Image" where
  "loadImage_oImage al pBitmap =
     (case pBitmap of
        Unassigned \<Rightarrow> Inl UninitialisedRead
      | Assigned None \<Rightarrow> Inl (Exception ''pBitmap != 0'')
      | Assigned (Some b) \<Rightarrow>
          if FreeImage_GetColorType b \<noteq> FIC_MINISBLACK
          then Inl (Exception ''FreeImage_GetColorType(pBitmap) == FIC_MINISBLACK'')
          else if FreeImage_GetBPP b \<noteq> 8
          then Inl (Exception ''FreeImage_GetBPP(pBitmap) == 8'')
          else
            (case ImageCPU_new al 1 (FreeImage_GetWidth b) (FreeImage_GetHeight b) of
               Inl e \<Rightarrow> Inl e
             | Inr oImage \<Rightarrow>
                 (let nSrcPitch = int (FreeImage_GetPitch b);
                      pSrcLine = uint32 (nSrcPitch * uint32 (int (FreeImage_GetHeight b) - 1));
                      nDstPitch = int (pitch oImage)
                  in (case copy_lines (height oImage) (width oImage)
                             (FreeImage_GetBits b) pSrcLine (- nSrcPitch)
                             (data oImage) 0 nDstPitch of
                        None \<Rightarrow> Inl OutOfBounds
                      | Some d \<Rightarrow> Inr (oImage\<lparr>data := d\<rparr>)))))"

text \<open>
  The whole function: it installs the error handler (line 56), builds \<open>oImage\<close> and, as
  its last step, swaps it with the caller's image (line 98). It returns nothing; the
  result is the outcome, the caller's image afterwards and the state afterwards.
\<close>

definition loadImage_C1 ::
  "'w FreeImage \<Rightarrow> HostAllocator \<Rightarrow> 'w io_state \<Rightarrow> string \<Rightarrow> Image \<Rightarrow>
     (error + unit) \<times> Image \<times> 'w io_state" where
  "loadImage_C1 fi al st rFileName rImage =
     (let st' = st\<lparr>handler_installed := True\<rparr>
      in case loadImage_pBitmap fi st' rFileName of
           Inl e \<Rightarrow> (Inl e, rImage, st')
         | Inr pBitmap \<Rightarrow>
             (case loadImage_oImage al pBitmap of
                Inl e \<Rightarrow> (Inl e, rImage, st')
              | Inr oImage \<Rightarrow> (Inr (), oImage, st')))"

section \<open>Loading a four-channel image (lines 101-135)\<close>

text \<open>
  How a call of a function with a return type ends when it does not throw: at a
  \<^verbatim>\<open>return\<close> statement with a value, or at the closing brace of the body, where no
  value is returned.
\<close>

datatype 'a returned = Return 'a | EndOfBody

text \<open>
  The loop of lines 124-131. \<open>srcIndex\<close> counts the rows of the host image up from 0,
  \<open>destIndex\<close> the scanlines of the bitmap down from \<open>height - 1\<close>; both offsets are
  products in \<^verbatim>\<open>unsigned int\<close>.
\<close>

fun copy_rows_C4 ::
  "nat \<Rightarrow> int \<Rightarrow> int \<Rightarrow> nat \<Rightarrow> Npp8u list \<Rightarrow> int \<Rightarrow> Npp8u list \<Rightarrow> int \<Rightarrow> Npp8u list option" where
  "copy_rows_C4 0 srcIndex destIndex n h_img fiPitch dst dstPitch = Some dst"
| "copy_rows_C4 (Suc k) srcIndex destIndex n h_img fiPitch dst dstPitch =
     (case memcpy dst (uint32 (srcIndex * dstPitch)) h_img (uint32 (destIndex * fiPitch)) n of
        None \<Rightarrow> None
      | Some dst' \<Rightarrow> copy_rows_C4 k (srcIndex + 1) (destIndex - 1) n h_img fiPitch dst' dstPitch)"

text \<open>
  The function loads with the PNG plugin whatever the file name, returns \<open>false\<close> when
  that gives no bitmap, converts the bitmap to 32 bits per pixel, copies the rows into a
  fresh image and assigns it to \<open>*outCPUMemory\<close> (line 134). The body ends there: there
  is no \<^verbatim>\<open>return\<close> after the assignment. FreeImage's accessors give 0 (and no bits) for
  a null bitmap, which is what \<open>dib32\<close> is when the conversion fails. The result is the
  outcome and \<open>*outCPUMemory\<close> afterwards.
\<close>

definition loadImage_C4 ::
  "'w FreeImage \<Rightarrow> HostAllocator \<Rightarrow> 'w io_state \<Rightarrow> string \<Rightarrow> Image \<Rightarrow>
     (error + bool returned) \<times> Image" where
  "loadImage_C4 fi al st fileName outCPUMemory =
     (case call_Load fi st FIF_PNG fileName of
        Inl e \<Rightarrow> (Inl e, outCPUMemory)
      | Inr None \<Rightarrow> (Inr (Return False), outCPUMemory)
      | Inr (Some dib) \<Rightarrow>
         (let dib32 = FreeImage_ConvertTo32Bits fi dib;
              w = int32 (case dib32 of None \<Rightarrow> 0 | Some b \<Rightarrow> int (FreeImage_GetWidth b));
              h = int32 (case dib32 of None \<Rightarrow> 0 | Some b \<Rightarrow> int (FreeImage_GetHeight b));
              h_img = (case dib32 of None \<Rightarrow> [] | Some b \<Rightarrow> FreeImage_GetBits b);
              fiPitch = (case dib32 of None \<Rightarrow> 0 | Some b \<Rightarrow> int (FreeImage_GetPitch b))
          in (case ImageCPU_new al 4 (nat (uint32 w)) (nat (uint32 h)) of
                Inl e \<Rightarrow> (Inl e, outCPUMemory)
              | Inr oHostSrc \<Rightarrow>
                  (case copy_rows_C4 (nat h) 0 (h - 1) (size_t (int32 (w * 4)))
                          h_img fiPitch (data oHostSrc) (int (pitch oHostSrc)) of
                     None \<Rightarrow> (Inl OutOfBounds, outCPUMemory)
                   | Some d \<Rightarrow> (Inr EndOfBody, oHostSrc\<lparr>data := d\<rparr>)))))"

section \<open>Saving (lines 137-187)\<close>

text \<open>
  Both savers first build a FreeImage bitmap (lines 143-155 and 169-181): they allocate
  a bitmap of the image's size, of 8 or 32 bits per pixel, and copy the rows of the image
  into it from the last scanline downwards. The file name plays no part in this.
\<close>

definition saveImage_C1_bitmap :: "'w FreeImage \<Rightarrow> Image \<Rightarrow> error + FIBITMAP" where
  "saveImage_C1_bitmap fi rImage =
     (case FreeImage_Allocate fi (int32 (int (width rImage))) (int32 (int (height rImage))) 8 of
        None \<Rightarrow> Inl (Exception ''pResultBitmap'')
      | Some pResultBitmap \<Rightarrow>
         (let nDstPitch = int (FreeImage_GetPitch pResultBitmap);
              pDstLine = uint32 (nDstPitch * uint32 (int (height rImage) - 1));
              nSrcPitch = int (pitch rImage)
          in (case copy_lines (height rImage) (width rImage)
                     (data rImage) 0 nSrcPitch
                     (FreeImage_GetBits pResultBitmap) pDstLine (- nDstPitch) of
                None \<Rightarrow> Inl OutOfBounds
              | Some bits \<Rightarrow> Inr (pResultBitmap\<lparr>FreeImage_GetBits := bits\<rparr>))))"

definition saveImage_C4_bitmap :: "'w FreeImage \<Rightarrow> Image \<Rightarrow> error + FIBITMAP" where
  "saveImage_C4_bitmap fi rImage =
     (case FreeImage_Allocate fi (int32 (int (width rImage))) (int32 (int (height rImage)))
             (8 * 4) of
        None \<Rightarrow> Inl (Exception ''pResultBitmap'')
      | Some pResultBitmap \<Rightarrow>
         (let nDstPitch = int (FreeImage_GetPitch pResultBitmap);
              pDstLine = uint32 (nDstPitch * uint32 (int (height rImage) - 1));
              nSrcPitch = int (pitch rImage)
          in (case copy_lines (height rImage) (size_t (uint32 (int (width rImage) * 4)))
                     (data rImage) 0 nSrcPitch
                     (FreeImage_GetBits pResultBitmap) pDstLine (- nDstPitch) of
                None \<Rightarrow> Inl OutOfBounds
              | Some bits \<Rightarrow> Inr (pResultBitmap\<lparr>FreeImage_GetBits := bits\<rparr>))))"

text \<open>
  Then they hand the bitmap to \<^verbatim>\<open>FreeImage_Save\<close> under the name given, with a format
  that is a constant of the code, and check the answer (lines 157-160 and 183-186):
  \<open>FIF_PGM\<close> for a gray-scale image, \<open>FIF_PNG\<close> for a four-channel image. The result
  is the outcome and the state afterwards.
\<close>

definition saveImage_C1 ::
  "'w FreeImage \<Rightarrow> 'w io_state \<Rightarrow> string \<Rightarrow> Image \<Rightarrow> (error + unit) \<times> 'w io_state" where
  "saveImage_C1 fi st rFileName rImage =
     (case saveImage_C1_bitmap fi rImage of
        Inl e \<Rightarrow> (Inl e, st)
      | Inr pResultBitmap \<Rightarrow>
         (let (r, st') = call_Save fi st FIF_PGM pResultBitmap rFileName
          in (case r of
                Inl e \<Rightarrow> (Inl e, st')
              | Inr bSuccess \<Rightarrow>
                  (NPP_ASSERT bSuccess ''Failed to save result image.'', st'))))"

definition saveImage_C4 ::
  "'w FreeImage \<Rightarrow> 'w io_state \<Rightarrow> string \<Rightarrow> Image \<Rightarrow> (error + unit) \<times> 'w io_state" where
  "saveImage_C4 fi st rFileName rImage =
     (case saveImage_C4_bitmap fi rImage of
        Inl e \<Rightarrow> (Inl e, st)
      | Inr pResultBitmap \<Rightarrow>
         (let (r, st') = call_Save fi st FIF_PNG pResultBitmap rFileName
          in (case r of
                Inl e \<Rightarrow> (Inl e, st')
              | Inr bSuccess \<Rightarrow>
                  (NPP_ASSERT bSuccess ''Failed to save result image.'', st'))))"

section \<open>One level of a mip chain (MipMapChunk.h)\<close>

record NppiSize =
  NppiSize_width :: int
  NppiSize_height :: int

record NppiRect =
  NppiRect_x :: int
  NppiRect_y :: int
  NppiRect_width :: int
  NppiRect_height :: int

definition NPPI_INTER_LINEAR :: int where "NPPI_INTER_LINEAR = 2"
definition NPPI_INTER_CUBIC :: int where "NPPI_INTER_CUBIC = 4"

text \<open>
  The arguments of one call of \<^verbatim>\<open>nppiResize_8u_C4R_Ctx\<close>, in the order of its parameter
  list; \<open>'ctx\<close> is the type of stream contexts.
\<close>

record 'ctx resize_call =
  pSrc :: "Npp8u list"
  nSrcStep :: int
  oSrcSize :: NppiSize
  oSrcRectROI :: NppiRect
  pDst :: "Npp8u list"
  nDstStep :: int
  oDstSize :: NppiSize
  oDstRectROI :: NppiRect
  eInterpolation :: int
  nppStreamCtx :: 'ctx

text \<open>
  The device side, which is not part of the sources: the allocator of device memory
  (the padding it adds to a row of a given number of bytes, the bytes found in fresh
  memory, and the requests it cannot satisfy), and the resize primitive, which gives a
  status and the content of the destination afterwards. As in NPP, a negative status is
  an error, zero is \<open>NPP_SUCCESS\<close> and a positive status a warning.
\<close>

record 'ctx Device =
  device_padding :: "nat \<Rightarrow> nat \<Rightarrow> nat"
  device_garbage :: "nat \<Rightarrow> Npp8u"
  device_exhausted :: "nat \<Rightarrow> nat \<Rightarrow> bool"
  nppiResize_8u_C4R_Ctx :: "'ctx resize_call \<Rightarrow> int \<times> Npp8u list"

definition NPP_SUCCESS :: int where "NPP_SUCCESS = 0"

text \<open>
  Modelled from the spec: the constructor \<^verbatim>\<open>ImageNPP_8u_C4(width, height)\<close> is declared in
  \<^verbatim>\<open>ImagesNPP.h\<close>, which is not part of the sources. The spec (3, 4.2, 7): the width
  and height of a buffer are positive and its pitch is at least
  \<open>width * bytesPerPixel\<close>; the constructor allocates device memory with a pitch chosen
  by the device allocator, and fails with \<open>AllocationError\<close> if the requested
  dimensions cannot be satisfied (an invalid size) or the device has no memory for them.
\<close>

definition ImageNPP_new :: "'ctx Device \<Rightarrow> int \<Rightarrow> int \<Rightarrow> error + Image" where
  "ImageNPP_new dev w h =
     (if w \<le> 0 \<or> h \<le> 0 \<or> device_exhausted dev (nat w * 4) (nat h)
      then Inl (Exception ''AllocationError'')
      else let p = nat w * 4 + device_padding dev (nat w * 4) (nat h)
           in Inr \<lparr>width = nat w, height = nat h, pitch = p,
                   data = map (device_garbage dev) [0..<p * nat h]\<rparr>)"

text \<open>
  Modelled from the spec: the macro \<^verbatim>\<open>NPP_CHECK_NPP\<close> is defined in \<^verbatim>\<open>Exceptions.h\<close>,
  which is not part of the sources. The spec (4.4, 7): a failure reported by the
  primitive is raised as an error and propagates to the caller.
\<close>

definition NPP_CHECK_NPP :: "int \<Rightarrow> error + unit" where
  "NPP_CHECK_NPP S = (if S < NPP_SUCCESS then Inl (Exception ''NPP_CHECK_NPP'') else Inr ())"

record MipMapChunk =
  GPUMemory :: Image
  Size :: NppiSize

text \<open>
  Lines 22-28 and 32-35: the arguments the constructor passes to the primitive, once
  \<open>GPUMemory\<close> is allocated.
\<close>

definition MipMapChunk_resize_call ::
  "Image \<Rightarrow> int \<Rightarrow> int \<Rightarrow> 'ctx \<Rightarrow> int \<Rightarrow> Image \<Rightarrow> 'ctx resize_call" where
  "MipMapChunk_resize_call srcImage w h streamCtx eInterp gpuMemory =
     (let srcSize = \<lparr>NppiSize_width = int32 (int (width srcImage)),
                      NppiSize_height = int32 (int (height srcImage))\<rparr>;
          srcROI = \<lparr>NppiRect_x = 0, NppiRect_y = 0,
                     NppiRect_width = NppiSize_width srcSize,
                     NppiRect_height = NppiSize_height srcSize\<rparr>;
          Size' = \<lparr>NppiSize_width = w, NppiSize_height = h\<rparr>;
          roi = \<lparr>NppiRect_x = 0, NppiRect_y = 0,
                  NppiRect_width = NppiSize_width Size',
                  NppiRect_height = NppiSize_height Size'\<rparr>
      in \<lparr>pSrc = data srcImage, nSrcStep = int32 (int (pitch srcImage)),
           oSrcSize = srcSize, oSrcRectROI = srcROI,
           pDst = data gpuMemory, nDstStep = int32 (int (pitch gpuMemory)),
           oDstSize = Size', oDstRectROI = roi,
           eInterpolation = eInterp, nppStreamCtx = streamCtx\<rparr>)"

text \<open>
  The constructor (lines 20-36). Its last parameter has the default value
  \<open>NPPI_INTER_LINEAR\<close>: \<open>None\<close> is a call that leaves it out. The constructor sets
  \<open>Size\<close>, allocates \<open>GPUMemory\<close> and calls the primitive once, under \<^verbatim>\<open>NPP_CHECK_NPP\<close>.
  The result is the chunk, or the exception that leaves the constructor, together with
  the calls of the primitive that were made.
\<close>

definition MipMapChunk_new ::
  "'ctx Device \<Rightarrow> Image \<Rightarrow> int \<Rightarrow> int \<Rightarrow> 'ctx \<Rightarrow> int option \<Rightarrow>
     (error + MipMapChunk) \<times> 'ctx resize_call list" where
  "MipMapChunk_new dev srcImage w h streamCtx eInterp =
     (let mode = (case eInterp of None \<Rightarrow> NPPI_INTER_LINEAR | Some m \<Rightarrow> m);
          Size' = \<lparr>NppiSize_width = w, NppiSize_height = h\<rparr>
      in case ImageNPP_new dev (NppiSize_width Size') (NppiSize_height Size') of
           Inl e \<Rightarrow> (Inl e, [])
         | Inr gpuMemory \<Rightarrow>
            (let call = MipMapChunk_resize_call srcImage w h streamCtx mode gpuMemory;
                 (status, mem) = nppiResize_8u_C4R_Ctx dev call
             in (case NPP_CHECK_NPP status of
                   Inl e \<Rightarrow> (Inl e, [call])
                 | Inr _ \<Rightarrow>
                     (Inr \<lparr>GPUMemory = gpuMemory\<lparr>data := mem\<rparr>, Size = Size'\<rparr>, [call]))))"

section \<open>What the theorems assume of the collaborators\<close>





section \<open>A small codec, allocator and device for the examples\<close>

text \<open>
  The examples run the code against a file system in memory: a file is the format its
  signature shows and the bitmap it holds. The plugin of format \<open>FIF_OTHER 0\<close> can
  write but not read, and a PGM file holds gray values only. Scanlines are padded to a
  multiple of four bytes, as FreeImage does.
\<close>

type_synonym disk = "string \<Rightarrow> (FREE_IMAGE_FORMAT \<times> FIBITMAP) option"

definition CalculatePitch :: "nat \<Rightarrow> nat \<Rightarrow> nat" where
  "CalculatePitch w bpp = (w * bpp + 31) div 32 * 4"

definition disk_GetFileType :: "disk \<Rightarrow> string \<Rightarrow> FREE_IMAGE_FORMAT" where
  "disk_GetFileType fs name = (case fs name of None \<Rightarrow> FIF_UNKNOWN | Some (fif, b) \<Rightarrow> fif)"

definition disk_GetFIFFromFilename :: "string \<Rightarrow> FREE_IMAGE_FORMAT" where
  "disk_GetFIFFromFilename name =
     (let ext = drop (length name - 4) name
      in if ext = ''.pgm'' then FIF_PGM else if ext = ''.png'' then FIF_PNG else FIF_UNKNOWN)"

definition disk_Load :: "disk \<Rightarrow> FREE_IMAGE_FORMAT \<Rightarrow> string \<Rightarrow> load_result" where
  "disk_Load fs fif name =
     (case fs name of
        None \<Rightarrow> LoadFailed None
      | Some (fif', b) \<Rightarrow> if fif' = fif then Loaded b else LoadFailed (Some ''bad signature''))"

definition disk_ConvertTo32Bits :: "FIBITMAP \<Rightarrow> FIBITMAP option" where
  "disk_ConvertTo32Bits b =
     (if FreeImage_GetBPP b = 32 then Some b
      else if FreeImage_GetBPP b = 8 then
        Some \<lparr>FreeImage_GetWidth = FreeImage_GetWidth b,
              FreeImage_GetHeight = FreeImage_GetHeight b,
              FreeImage_GetBPP = 32,
              FreeImage_GetColorType = FIC_RGB,
              FreeImage_GetPitch = 4 * FreeImage_GetWidth b,
              FreeImage_GetBits =
                concat (map (\<lambda>r. concat (map (\<lambda>v. [v, v, v, 255])
                                              (scanline (FreeImage_GetWidth b) b r)))
                            [0..<FreeImage_GetHeight b])\<rparr>
      else None)"

definition disk_Allocate :: "int \<Rightarrow> int \<Rightarrow> int \<Rightarrow> FIBITMAP option" where
  "disk_Allocate w h bpp =
     (let p = CalculatePitch (nat w) (nat bpp)
      in if w \<le> 0 \<or> h \<le> 0 \<or> (bpp \<noteq> 8 \<and> bpp \<noteq> 32) then None
         else Some \<lparr>FreeImage_GetWidth = nat w, FreeImage_GetHeight = nat h,
                    FreeImage_GetBPP = nat bpp,
                    FreeImage_GetColorType = (if bpp = 8 then FIC_MINISBLACK else FIC_RGBALPHA),
                    FreeImage_GetPitch = p,
                    FreeImage_GetBits = replicate (p * nat h) 0\<rparr>)"

definition disk_Save :: "disk \<Rightarrow> FREE_IMAGE_FORMAT \<Rightarrow> FIBITMAP \<Rightarrow> string \<Rightarrow> save_result \<times> disk" where
  "disk_Save fs fif b name =
     (if fif = FIF_PGM \<and> FreeImage_GetBPP b \<noteq> 8 then (SaveFailed (Some ''not gray''), fs)
      else (Saved, fs(name \<mapsto>
              (fif, if fif = FIF_PGM then b\<lparr>FreeImage_GetColorType := FIC_MINISBLACK\<rparr> else b))))"

definition disk_codec :: "disk FreeImage" where
  "disk_codec =
     \<lparr>FreeImage_GetFileType = disk_GetFileType,
      FreeImage_GetFIFFromFilename = disk_GetFIFFromFilename,
      FreeImage_FIFSupportsReading = (\<lambda>fif. fif \<noteq> FIF_OTHER 0),
      FreeImage_Load = disk_Load,
      FreeImage_ConvertTo32Bits = disk_ConvertTo32Bits,
      FreeImage_Allocate = disk_Allocate,
      FreeImage_Save = disk_Save\<rparr>"

text \<open>A host allocator that pads every row by three bytes and hands out bytes of 170.\<close>

definition padding_allocator :: HostAllocator where
  "padding_allocator = \<lparr>padding = (\<lambda>n h. 3), garbage = (\<lambda>i. 170), exhausted = (\<lambda>n h. False)\<rparr>"

text \<open>
  A gray-scale bitmap of 2 x 2 pixels (bottom scanline 1 2, top scanline 3 4), the same
  picture with four channels, and a gray-scale host image of 2 x 2 pixels with a pitch
  of 3.
\<close>

definition gray_2x2 :: FIBITMAP where
  "gray_2x2 =
     \<lparr>FreeImage_GetWidth = 2, FreeImage_GetHeight = 2, FreeImage_GetBPP = 8,
      FreeImage_GetColorType = FIC_MINISBLACK, FreeImage_GetPitch = 4,
      FreeImage_GetBits = [1, 2, 0, 0, 3, 4, 0, 0]\<rparr>"

definition rgba_2x1 :: FIBITMAP where
  "rgba_2x1 =
     \<lparr>FreeImage_GetWidth = 2, FreeImage_GetHeight = 1, FreeImage_GetBPP = 32,
      FreeImage_GetColorType = FIC_RGBALPHA, FreeImage_GetPitch = 8,
      FreeImage_GetBits = [1, 2, 3, 255, 4, 5, 6, 255]\<rparr>"

definition host_2x2 :: Image where
  "host_2x2 = \<lparr>width = 2, height = 2, pitch = 3, data = [10, 20, 99, 30, 40, 99]\<rparr>"

text \<open>
  A file system with a gray-scale PNG, a four-channel PNG, a gray-scale PGM and a file of
  the write-only format; and the state the examples start in.
\<close>

definition example_disk :: disk where
  "example_disk =
     [''gray.png'' \<mapsto> (FIF_PNG, gray_2x2), ''rgba.png'' \<mapsto> (FIF_PNG, rgba_2x1),
      ''gray.pgm'' \<mapsto> (FIF_PGM, gray_2x2), ''picture.wo'' \<mapsto> (FIF_OTHER 0, gray_2x2)]"

definition example_state :: "disk io_state" where
  "example_state = \<lparr>files = example_disk, handler_installed = False\<rparr>"





text \<open>
  Two devices that add no padding and hand out zeroed memory. The primitive of the first
  accepts every call and fills the destination with the byte 9; the primitive of the
  second reports an error for every call.
\<close>

definition filling_device :: "unit Device" where
  "filling_device =
     \<lparr>device_padding = (\<lambda>n h. 0), device_garbage = (\<lambda>i. 0),
      device_exhausted = (\<lambda>n h. False),
      nppiResize_8u_C4R_Ctx = (\<lambda>c. (0, replicate (length (pDst c)) 9))\<rparr>"

definition failing_device :: "unit Device" where
  "failing_device =
     \<lparr>device_padding = (\<lambda>n h. 0), device_garbage = (\<lambda>i. 0),
      device_exhausted = (\<lambda>n h. False),
      nppiResize_8u_C4R_Ctx = (\<lambda>c. (- 1000, pDst c))\<rparr>"

definition device_2x2 :: Image where
  "device_2x2 = \<lparr>width = 2, height = 2, pitch = 8, data = replicate 16 7\<rparr>"

section \<open>The copy loops\<close>

text \<open>
  What \<open>memcpy\<close> and the row loops do to the destination buffer: its length stays,
  every copy lies inside both buffers, the loops run to their end when every row does,
  bytes outside the rows written keep their value, and row \<open>i\<close> of the destination
  holds the bytes of row \<open>i\<close> of the source, provided the rows of the destination do
  not overlap (the step is at least the row length).
\<close>

lemma memcpy_Some_iff:
  "(\<exists>dst'. memcpy dst d src s n = Some dst') \<longleftrightarrow>
     (0 \<le> d \<and> nat d + n \<le> length dst \<and> 0 \<le> s \<and> nat s + n \<le> length src)"
  by (simp add: memcpy_def)


lemma memcpy_length: "memcpy dst d src s n = Some dst' \<Longrightarrow> length dst' = length dst"
  by (auto simp: memcpy_def split: if_splits)




lemma copy_lines_succeeds:
  "(\<And>i. i < k \<Longrightarrow>
     0 \<le> d + int i * ds \<and> nat (d + int i * ds) + n \<le> length dst \<and>
     0 \<le> s + int i * ss \<and> nat (s + int i * ss) + n \<le> length src) \<Longrightarrow>
   \<exists>dst'. copy_lines k n src s ss dst d ds = Some dst'"
proof (induction k arbitrary: s d dst)
  case 0
  then show ?case by simp
next
  case (Suc k)
  from Suc.prems [of 0] obtain dst1 where m: "memcpy dst d src s n = Some dst1"
    using memcpy_Some_iff [of dst d src s n] by auto
  have "\<exists>dst'. copy_lines k n src (s + ss) ss dst1 (d + ds) ds = Some dst'"
  proof (rule Suc.IH)
    fix i assume "i < k"
    then have "Suc i < Suc k" by simp
    from Suc.prems [OF this] memcpy_length [OF m]
    show "0 \<le> d + ds + int i * ds \<and> nat (d + ds + int i * ds) + n \<le> length dst1 \<and>
          0 \<le> s + ss + int i * ss \<and> nat (s + ss + int i * ss) + n \<le> length src"
      by (simp add: algebra_simps)
  qed
  with m show ?case by simp
qed





lemma uint32_id: "0 \<le> x \<Longrightarrow> x < 2 ^ 32 \<Longrightarrow> uint32 x = x"
  by (simp add: uint32_def)






section \<open>The loops of the loaders and the savers\<close>





lemma line_offset:
  assumes "r < H"
  shows "int P * int (H - 1) + int r * - int P = int ((H - 1 - r) * P)"
proof -
  from assms obtain k where H: "H = Suc (r + k)"
    using less_imp_Suc_add by blast
  show ?thesis unfolding H by (simp add: algebra_simps)
qed

lemma row_inside:
  assumes "r < H" and "n \<le> (P::nat)"
  shows "r * P + n \<le> P * H"
proof -
  have "r * P + n \<le> r * P + P" using assms(2) by simp
  also have "\<dots> = Suc r * P" by simp
  also have "\<dots> \<le> H * P" using assms(1) by (intro mult_le_mono1) simp
  finally show ?thesis by (simp add: mult.commute)
qed


lemma last_line_offset_small:
  assumes "0 < H" and "P * H < 2 ^ 31" and "0 < P"
  shows "uint32 (int P * uint32 (int H - 1)) = int P * int (H - 1)"
proof -
  have "H \<le> P * H" using assms(3) by (cases P) simp_all
  then have "H < 2 ^ 31" using assms(2) by (rule le_less_trans)
  then have 1: "uint32 (int H - 1) = int (H - 1)"
    using assms(1) by (intro trans [OF uint32_id]) auto
  have "P * (H - 1) \<le> P * H" by simp
  then have "P * (H - 1) < 2 ^ 31" using assms(2) by (rule le_less_trans)
  also have "(2::nat) ^ 31 < 2 ^ 32" by simp
  finally have "P * (H - 1) < 2 ^ 32" .
  then have "int (P * (H - 1)) < 2 ^ 32" by (metis of_nat_less_numeral_power_cancel_iff)
  then have "uint32 (int P * int (H - 1)) = int P * int (H - 1)"
    by (intro uint32_id) simp_all
  with 1 show ?thesis by simp
qed



text \<open>The savers' loop: the same walk with source and destination exchanged.\<close>

lemma save_loop_succeeds:
  assumes "n \<le> P" and "n \<le> p" and "length src = p * H" and "length dst = P * H"
  shows "\<exists>d. copy_lines H n src 0 (int p) dst (int P * int (H - 1)) (- int P) = Some d"
proof (rule copy_lines_succeeds)
  fix i assume i: "i < H"
  have d1: "nat (0 + int i * int p) = i * p"
    by (simp add: nat_mult_distrib)
  have d2: "i * p + n \<le> length src"
    using row_inside [OF i assms(2)] assms(3) by simp
  have s0: "int P * int (H - 1) + int i * - int P = int ((H - 1 - i) * P)"
    by (rule line_offset [OF i])
  have "H - 1 - i < H" using i by simp
  from row_inside [OF this assms(1)] assms(4)
  have s2: "(H - 1 - i) * P + n \<le> length dst" by simp
  show "0 \<le> int P * int (H - 1) + int i * - int P \<and>
        nat (int P * int (H - 1) + int i * - int P) + n \<le> length dst \<and>
        0 \<le> 0 + int i * int p \<and> nat (0 + int i * int p) + n \<le> length src"
    unfolding d1 s0 nat_int using d2 s2 by simp
qed



section \<open>The loaders on a loaded bitmap, the savers on an allocated one\<close>















section \<open>Running the examples\<close>

text \<open>
  The loops on a numeral of iterations, and the definitions an example unfolds.
\<close>

lemma copy_lines_numeral:
  "copy_lines (numeral v) n src s ss dst d ds =
     (case memcpy dst d src s n of
        None \<Rightarrow> None
      | Some dst' \<Rightarrow> copy_lines (pred_numeral v) n src (s + ss) ss dst' (d + ds) ds)"
  by (simp add: numeral_eq_Suc)

lemma copy_rows_C4_numeral:
  "copy_rows_C4 (numeral v) srcIndex destIndex n h_img fiPitch dst dstPitch =
     (case memcpy dst (uint32 (srcIndex * dstPitch)) h_img (uint32 (destIndex * fiPitch)) n of
        None \<Rightarrow> None
      | Some dst' \<Rightarrow>
          copy_rows_C4 (pred_numeral v) (srcIndex + 1) (destIndex - 1) n h_img fiPitch dst' dstPitch)"
  by (simp add: numeral_eq_Suc)

lemmas example_defs =
  disk_codec_def disk_GetFileType_def disk_GetFIFFromFilename_def disk_Load_def
  disk_ConvertTo32Bits_def disk_Allocate_def disk_Save_def CalculatePitch_def
  padding_allocator_def gray_2x2_def rgba_2x1_def host_2x2_def example_disk_def
  example_state_def empty_Image_def

lemmas code_defs =
  loadImage_C1_def loadImage_pBitmap_def loadImage_eFormat_def loadImage_oImage_def
  loadImage_C4_def saveImage_C1_def saveImage_C4_def saveImage_C1_bitmap_def
  saveImage_C4_bitmap_def call_Load_def call_Save_def
  NPP_ASSERT_def FreeImageErrorHandler_def ImageCPU_new_def memcpy_def
  uint32_def int32_def size_t_def scanline_def copy_lines_numeral copy_rows_C4_numeral

lemmas device_defs = filling_device_def failing_device_def device_2x2_def


section \<open>The codec of the examples keeps the contract\<close>





section \<open>The format a loader accepts\<close>




section \<open>The rows of a decoded image\<close>





section \<open>Saving and loading again\<close>




section \<open>Failed loads\<close>

text \<open>
  Claim C4. If a load fails, the caller's destination buffer is left unchanged. When
  \<open>loadImage\<close> for gray-scale images ends in an exception (unknown format, no bitmap
  loaded, wrong colour type or bit depth, no memory), the image the caller passed is
  what it was: the swap of line 98 is the last step. When \<open>loadImage\<close> for
  four-channel images ends in an exception or returns \<open>false\<close>, \<open>*outCPUMemory\<close> is
  what it was: the assignment of line 134 is the last step.
\<close>

theorem load_failure_leaves_destination:
  "(fst (loadImage_C1 fi al st rFileName rImage) = Inl (Exception msg) \<longrightarrow>
      fst (snd (loadImage_C1 fi al st rFileName rImage)) = rImage) \<and>
   (fst (loadImage_C4 fi al st fileName outCPUMemory) = Inl (Exception msg') \<or>
    fst (loadImage_C4 fi al st fileName outCPUMemory) = Inr (Return False) \<longrightarrow>
      snd (loadImage_C4 fi al st fileName outCPUMemory) = outCPUMemory)"
  by (simp add: loadImage_C1_def loadImage_C4_def Let_def split: sum.splits option.splits)

text \<open>
  The gray-scale loader on a four-channel file, and the four-channel loader on a file
  that does not exist, both with a 2 x 2 image as destination.
\<close>

theorem load_failure_leaves_destination_witness:
  "fst (loadImage_C1 disk_codec padding_allocator example_state ''rgba.png'' host_2x2) =
     Inl (Exception ''FreeImage_GetColorType(pBitmap) == FIC_MINISBLACK'') \<and>
   fst (snd (loadImage_C1 disk_codec padding_allocator example_state ''rgba.png'' host_2x2)) =
     host_2x2 \<and>
   fst (loadImage_C4 disk_codec padding_allocator example_state ''nofile'' host_2x2) =
     Inr (Return False) \<and>
   snd (loadImage_C4 disk_codec padding_allocator example_state ''nofile'' host_2x2) = host_2x2"
  using load_failure_leaves_destination
    [of disk_codec padding_allocator example_state "''rgba.png''" host_2x2
      "''FreeImage_GetColorType(pBitmap) == FIC_MINISBLACK''" "''nofile''" host_2x2]
  by (simp add: code_defs example_defs)

section \<open>The value the four-channel loader returns\<close>

text \<open>
  Claim C5. The four-channel loader returns a boolean that tells success from failure:
  \<open>false\<close> when FreeImage cannot load the file, \<open>true\<close> on every successful load. The
  code returns \<open>false\<close> in the first case, but after a successful load control reaches
  the end of the body without a \<^verbatim>\<open>return\<close>: on the four-channel PNG of the examples the
  image is stored and no value is returned.
\<close>

theorem loadImage_C4_returns_no_value:
  "loadImage_C4 disk_codec padding_allocator example_state ''rgba.png'' empty_Image =
     (Inr EndOfBody,
      \<lparr>width = 2, height = 1, pitch = 11,
         data = [1, 2, 3, 255, 4, 5, 6, 255, 170, 170, 170]\<rparr>)"
  by code_simp

text \<open>No call of the four-channel loader returns \<open>true\<close>.\<close>

lemma loadImage_C4_never_true:
  "fst (loadImage_C4 fi al st fileName outCPUMemory) \<noteq> Inr (Return True)"
  by (simp add: loadImage_C4_def Let_def split: sum.splits option.splits)

section \<open>The bitmap pointer of the gray-scale loader\<close>

text \<open>
  Claim C9. In the gray-scale loader, \<open>pBitmap\<close> has been assigned on every path that
  reaches the check \<^verbatim>\<open>NPP_ASSERT(pBitmap != 0)\<close>, also for a format whose plugin cannot
  read. The code assigns it only inside \<^verbatim>\<open>if (FreeImage_FIFSupportsReading(eFormat))\<close>:
  on the file of the write-only format the check is reached with \<open>pBitmap\<close> unassigned,
  and the load reads it.
\<close>

theorem loadImage_pBitmap_unassigned:
  "loadImage_pBitmap disk_codec (example_state\<lparr>handler_installed := True\<rparr>) ''picture.wo'' =
     Inr Unassigned \<and>
   fst (loadImage_C1 disk_codec padding_allocator example_state ''picture.wo'' empty_Image) =
     Inl UninitialisedRead"
  by (simp add: code_defs example_defs)

text \<open>The same for every recognised format without read support.\<close>

lemma loadImage_pBitmap_no_reader:
  "loadImage_eFormat fi st rFileName \<noteq> FIF_UNKNOWN \<Longrightarrow>
   \<not> FreeImage_FIFSupportsReading fi (loadImage_eFormat fi st rFileName) \<Longrightarrow>
   loadImage_pBitmap fi st rFileName = Inr Unassigned"
  by (simp add: loadImage_pBitmap_def NPP_ASSERT_def Let_def)

section \<open>The format the savers write\<close>

text \<open>
  What the call of \<^verbatim>\<open>FreeImage_Save\<close> leaves in the file system, and when its answer is
  \<^verbatim>\<open>TRUE\<close>; then the same for the savers, once the bitmap is built.
\<close>

lemma call_Save_files:
  "files (snd (call_Save fi st fif b name)) = snd (FreeImage_Save fi (files st) fif b name)"
  by (simp add: call_Save_def Let_def split: prod.splits save_result.splits option.splits)

lemma call_Save_True:
  "(fst (call_Save fi st fif b name) = Inr True) =
     (fst (FreeImage_Save fi (files st) fif b name) = Saved)"
  by (simp add: call_Save_def Let_def FreeImageErrorHandler_def
      split: prod.splits save_result.splits option.splits)

lemma saveImage_C1_Save:
  assumes "saveImage_C1_bitmap fi rImage = Inr b"
  shows "files (snd (saveImage_C1 fi st rFileName rImage)) =
           snd (FreeImage_Save fi (files st) FIF_PGM b rFileName)"
    and "(fst (saveImage_C1 fi st rFileName rImage) = Inr ()) =
           (fst (FreeImage_Save fi (files st) FIF_PGM b rFileName) = Saved)"
proof -
  obtain r st' where c: "call_Save fi st FIF_PGM b rFileName = (r, st')"
    by (cases "call_Save fi st FIF_PGM b rFileName")
  have f: "files st' = snd (FreeImage_Save fi (files st) FIF_PGM b rFileName)"
    using call_Save_files [of fi st FIF_PGM b rFileName] by (simp add: c)
  have t: "(r = Inr True) = (fst (FreeImage_Save fi (files st) FIF_PGM b rFileName) = Saved)"
    using call_Save_True [of fi st FIF_PGM b rFileName] by (simp add: c)
  show "files (snd (saveImage_C1 fi st rFileName rImage)) =
           snd (FreeImage_Save fi (files st) FIF_PGM b rFileName)"
    using assms f by (simp add: saveImage_C1_def c split: sum.splits)
  show "(fst (saveImage_C1 fi st rFileName rImage) = Inr ()) =
           (fst (FreeImage_Save fi (files st) FIF_PGM b rFileName) = Saved)"
    using assms t by (auto simp: saveImage_C1_def c NPP_ASSERT_def split: sum.splits)
qed

lemma saveImage_C4_Save:
  assumes "saveImage_C4_bitmap fi rImage = Inr b"
  shows "files (snd (saveImage_C4 fi st rFileName rImage)) =
           snd (FreeImage_Save fi (files st) FIF_PNG b rFileName)"
    and "(fst (saveImage_C4 fi st rFileName rImage) = Inr ()) =
           (fst (FreeImage_Save fi (files st) FIF_PNG b rFileName) = Saved)"
proof -
  obtain r st' where c: "call_Save fi st FIF_PNG b rFileName = (r, st')"
    by (cases "call_Save fi st FIF_PNG b rFileName")
  have f: "files st' = snd (FreeImage_Save fi (files st) FIF_PNG b rFileName)"
    using call_Save_files [of fi st FIF_PNG b rFileName] by (simp add: c)
  have t: "(r = Inr True) = (fst (FreeImage_Save fi (files st) FIF_PNG b rFileName) = Saved)"
    using call_Save_True [of fi st FIF_PNG b rFileName] by (simp add: c)
  show "files (snd (saveImage_C4 fi st rFileName rImage)) =
           snd (FreeImage_Save fi (files st) FIF_PNG b rFileName)"
    using assms f by (simp add: saveImage_C4_def c split: sum.splits)
  show "(fst (saveImage_C4 fi st rFileName rImage) = Inr ()) =
           (fst (FreeImage_Save fi (files st) FIF_PNG b rFileName) = Saved)"
    using assms t by (auto simp: saveImage_C4_def c NPP_ASSERT_def split: sum.splits)
qed

text \<open>
  Claim C10. The savers ignore the extension of the output path and always write a fixed
  format: \<open>saveImage\<close> for gray-scale images encodes as PGM and \<open>saveImage\<close> for
  four-channel images as PNG, for every path. Once the bitmap is built, the file system
  after the gray-scale saver is the one \<^verbatim>\<open>FreeImage_Save\<close> leaves when it is called with
  \<open>FIF_PGM\<close>, that bitmap and the path given, and the saver succeeds exactly when that
  call does; likewise for the four-channel saver with \<open>FIF_PNG\<close>. When the bitmap
  cannot be built, the saver ends in that error and the file system is untouched.
\<close>

theorem saveImage_fixed_format:
  "(saveImage_C1_bitmap fi rImage = Inr b \<longrightarrow>
      files (snd (saveImage_C1 fi st rFileName rImage)) =
        snd (FreeImage_Save fi (files st) FIF_PGM b rFileName) \<and>
      (fst (saveImage_C1 fi st rFileName rImage) = Inr ()) =
        (fst (FreeImage_Save fi (files st) FIF_PGM b rFileName) = Saved)) \<and>
   (saveImage_C1_bitmap fi rImage = Inl e \<longrightarrow>
      saveImage_C1 fi st rFileName rImage = (Inl e, st)) \<and>
   (saveImage_C4_bitmap fi rImage4 = Inr b4 \<longrightarrow>
      files (snd (saveImage_C4 fi st rFileName rImage4)) =
        snd (FreeImage_Save fi (files st) FIF_PNG b4 rFileName) \<and>
      (fst (saveImage_C4 fi st rFileName rImage4) = Inr ()) =
        (fst (FreeImage_Save fi (files st) FIF_PNG b4 rFileName) = Saved)) \<and>
   (saveImage_C4_bitmap fi rImage4 = Inl e4 \<longrightarrow>
      saveImage_C4 fi st rFileName rImage4 = (Inl e4, st))"
proof (intro conjI impI)
  assume "saveImage_C1_bitmap fi rImage = Inr b"
  from saveImage_C1_Save [OF this]
  show "files (snd (saveImage_C1 fi st rFileName rImage)) =
        snd (FreeImage_Save fi (files st) FIF_PGM b rFileName)"
    and "(fst (saveImage_C1 fi st rFileName rImage) = Inr ()) =
        (fst (FreeImage_Save fi (files st) FIF_PGM b rFileName) = Saved)"
    by blast+
next
  assume "saveImage_C1_bitmap fi rImage = Inl e"
  then show "saveImage_C1 fi st rFileName rImage = (Inl e, st)"
    by (simp add: saveImage_C1_def)
next
  assume "saveImage_C4_bitmap fi rImage4 = Inr b4"
  from saveImage_C4_Save [OF this]
  show "files (snd (saveImage_C4 fi st rFileName rImage4)) =
        snd (FreeImage_Save fi (files st) FIF_PNG b4 rFileName)"
    and "(fst (saveImage_C4 fi st rFileName rImage4) = Inr ()) =
        (fst (FreeImage_Save fi (files st) FIF_PNG b4 rFileName) = Saved)"
    by blast+
next
  assume "saveImage_C4_bitmap fi rImage4 = Inl e4"
  then show "saveImage_C4 fi st rFileName rImage4 = (Inl e4, st)"
    by (simp add: saveImage_C4_def)
qed

text \<open>
  A gray-scale image saved under a name ending in \<open>.png\<close> becomes a PGM file, and a
  four-channel image saved under a name ending in \<open>.pgm\<close> a PNG file.
\<close>

theorem saveImage_fixed_format_witness:
  "saveImage_C1_bitmap disk_codec host_2x2 =
     Inr \<lparr>FreeImage_GetWidth = 2, FreeImage_GetHeight = 2, FreeImage_GetBPP = 8,
          FreeImage_GetColorType = FIC_MINISBLACK, FreeImage_GetPitch = 4,
          FreeImage_GetBits = [30, 40, 0, 0, 10, 20, 0, 0]\<rparr> \<and>
   fst (saveImage_C1 disk_codec example_state ''out.png'' host_2x2) = Inr () \<and>
   files (snd (saveImage_C1 disk_codec example_state ''out.png'' host_2x2)) ''out.png'' =
     Some (FIF_PGM,
       \<lparr>FreeImage_GetWidth = 2, FreeImage_GetHeight = 2, FreeImage_GetBPP = 8,
        FreeImage_GetColorType = FIC_MINISBLACK, FreeImage_GetPitch = 4,
        FreeImage_GetBits = [30, 40, 0, 0, 10, 20, 0, 0]\<rparr>) \<and>
   saveImage_C4_bitmap disk_codec
       \<lparr>width = 2, height = 2, pitch = 9,
            data = [1, 2, 3, 4, 5, 6, 7, 8, 0, 9, 10, 11, 12, 13, 14, 15, 16, 0]\<rparr> =
     Inr \<lparr>FreeImage_GetWidth = 2, FreeImage_GetHeight = 2, FreeImage_GetBPP = 32,
          FreeImage_GetColorType = FIC_RGBALPHA, FreeImage_GetPitch = 8,
          FreeImage_GetBits = [9, 10, 11, 12, 13, 14, 15, 16, 1, 2, 3, 4, 5, 6, 7, 8]\<rparr> \<and>
   fst (saveImage_C4 disk_codec example_state ''out.pgm''
          \<lparr>width = 2, height = 2, pitch = 9,
            data = [1, 2, 3, 4, 5, 6, 7, 8, 0, 9, 10, 11, 12, 13, 14, 15, 16, 0]\<rparr>) = Inr () \<and>
   files (snd (saveImage_C4 disk_codec example_state ''out.pgm''
          \<lparr>width = 2, height = 2, pitch = 9,
            data = [1, 2, 3, 4, 5, 6, 7, 8, 0, 9, 10, 11, 12, 13, 14, 15, 16, 0]\<rparr>)) ''out.pgm'' =
     Some (FIF_PNG,
       \<lparr>FreeImage_GetWidth = 2, FreeImage_GetHeight = 2, FreeImage_GetBPP = 32,
        FreeImage_GetColorType = FIC_RGBALPHA, FreeImage_GetPitch = 8,
        FreeImage_GetBits = [9, 10, 11, 12, 13, 14, 15, 16, 1, 2, 3, 4, 5, 6, 7, 8]\<rparr>)"
proof -
  let ?img4 = "\<lparr>width = 2, height = 2, pitch = 9,
            data = [1, 2, 3, 4, 5, 6, 7, 8, 0, 9, 10, 11, 12, 13, 14, 15, 16, 0]\<rparr>"
  let ?b = "\<lparr>FreeImage_GetWidth = 2, FreeImage_GetHeight = 2, FreeImage_GetBPP = 8,
          FreeImage_GetColorType = FIC_MINISBLACK, FreeImage_GetPitch = 4,
          FreeImage_GetBits = [30, 40, 0, 0, 10, 20, 0, 0]\<rparr>"
  let ?b4 = "\<lparr>FreeImage_GetWidth = 2, FreeImage_GetHeight = 2, FreeImage_GetBPP = 32,
          FreeImage_GetColorType = FIC_RGBALPHA, FreeImage_GetPitch = 8,
          FreeImage_GetBits = [9, 10, 11, 12, 13, 14, 15, 16, 1, 2, 3, 4, 5, 6, 7, 8]\<rparr>"
  have b: "saveImage_C1_bitmap disk_codec host_2x2 = Inr ?b"
    by code_simp
  have b4: "saveImage_C4_bitmap disk_codec ?img4 = Inr ?b4"
    by code_simp
  have s: "FreeImage_Save disk_codec (files example_state) FIF_PGM ?b ''out.png'' =
      (Saved, (files example_state)(''out.png'' \<mapsto> (FIF_PGM, ?b)))"
    "FreeImage_Save disk_codec (files example_state) FIF_PNG ?b4 ''out.pgm'' =
      (Saved, (files example_state)(''out.pgm'' \<mapsto> (FIF_PNG, ?b4)))"
    by (simp_all add: disk_codec_def disk_Save_def)
  from saveImage_fixed_format [of disk_codec host_2x2 ?b example_state "''out.png''" _ ?img4 ?b4]
    b b4
  have "files (snd (saveImage_C1 disk_codec example_state ''out.png'' host_2x2)) =
        snd (FreeImage_Save disk_codec (files example_state) FIF_PGM ?b ''out.png'')"
    "(fst (saveImage_C1 disk_codec example_state ''out.png'' host_2x2) = Inr ()) =
        (fst (FreeImage_Save disk_codec (files example_state) FIF_PGM ?b ''out.png'') = Saved)"
    by blast+
  moreover
  from saveImage_fixed_format [of disk_codec host_2x2 ?b example_state "''out.pgm''" _ ?img4 ?b4]
    b b4
  have "files (snd (saveImage_C4 disk_codec example_state ''out.pgm'' ?img4)) =
        snd (FreeImage_Save disk_codec (files example_state) FIF_PNG ?b4 ''out.pgm'')"
    "(fst (saveImage_C4 disk_codec example_state ''out.pgm'' ?img4) = Inr ()) =
        (fst (FreeImage_Save disk_codec (files example_state) FIF_PNG ?b4 ''out.pgm'') = Saved)"
    by blast+
  ultimately show ?thesis
    using b b4 by (simp add: s)
qed

section \<open>The constructor of a mip level\<close>




text \<open>
  Claim C7. For every construction, the source region passed to the resize primitive is
  the full extent of the source image, \<open>{0, 0, srcImage.width(), srcImage.height()}\<close>,
  the destination region is the full extent of the requested size, and the mode is
  \<open>NPPI_INTER_LINEAR\<close> when none is supplied; a target size equal to the source size is
  resampled like any other. Once the target buffer is allocated, the outcome of the
  constructor is the answer of the primitive to one call with these arguments, whatever
  \<open>w\<close> and \<open>h\<close> are: the exception of \<^verbatim>\<open>NPP_CHECK_NPP\<close> when the status is an error,
  and otherwise a chunk whose memory is what the primitive left in the destination. The
  width, height and pitch of the source are read as \<^verbatim>\<open>int\<close>.
\<close>

theorem MipMapChunk_resize_arguments:
  assumes "ImageNPP_new dev w h = Inr gpuMemory"
  shows "MipMapChunk_new dev srcImage w h streamCtx eInterp =
    (let c = \<lparr>pSrc = data srcImage, nSrcStep = int32 (int (pitch srcImage)),
               oSrcSize = \<lparr>NppiSize_width = int32 (int (width srcImage)),
                            NppiSize_height = int32 (int (height srcImage))\<rparr>,
               oSrcRectROI = \<lparr>NppiRect_x = 0, NppiRect_y = 0,
                               NppiRect_width = int32 (int (width srcImage)),
                               NppiRect_height = int32 (int (height srcImage))\<rparr>,
               pDst = data gpuMemory, nDstStep = int32 (int (pitch gpuMemory)),
               oDstSize = \<lparr>NppiSize_width = w, NppiSize_height = h\<rparr>,
               oDstRectROI = \<lparr>NppiRect_x = 0, NppiRect_y = 0,
                               NppiRect_width = w, NppiRect_height = h\<rparr>,
               eInterpolation = (case eInterp of None \<Rightarrow> NPPI_INTER_LINEAR | Some m \<Rightarrow> m),
               nppStreamCtx = streamCtx\<rparr>;
         answer = nppiResize_8u_C4R_Ctx dev c
     in if fst answer < NPP_SUCCESS then (Inl (Exception ''NPP_CHECK_NPP''), [c])
        else (Inr \<lparr>GPUMemory = gpuMemory\<lparr>data := snd answer\<rparr>,
                   Size = \<lparr>NppiSize_width = w, NppiSize_height = h\<rparr>\<rparr>, [c]))"
  using assms
  by (simp add: MipMapChunk_new_def MipMapChunk_resize_call_def NPP_CHECK_NPP_def Let_def
      split: prod.splits)

text \<open>
  A 2 x 2 source resampled to 2 x 2, with no mode given, on a device whose primitive
  fills the destination with the byte 9: the chunk holds what the primitive wrote.
\<close>

theorem MipMapChunk_resize_arguments_witness:
  "ImageNPP_new filling_device 2 2 =
     Inr \<lparr>width = 2, height = 2, pitch = 8, data = replicate 16 0\<rparr> \<and>
   MipMapChunk_new filling_device device_2x2 2 2 () None =
     (Inr \<lparr>GPUMemory = \<lparr>width = 2, height = 2, pitch = 8, data = replicate 16 9\<rparr>,
           Size = \<lparr>NppiSize_width = 2, NppiSize_height = 2\<rparr>\<rparr>,
      [\<lparr>pSrc = replicate 16 7, nSrcStep = 8,
        oSrcSize = \<lparr>NppiSize_width = 2, NppiSize_height = 2\<rparr>,
        oSrcRectROI = \<lparr>NppiRect_x = 0, NppiRect_y = 0, NppiRect_width = 2, NppiRect_height = 2\<rparr>,
        pDst = replicate 16 0, nDstStep = 8,
        oDstSize = \<lparr>NppiSize_width = 2, NppiSize_height = 2\<rparr>,
        oDstRectROI = \<lparr>NppiRect_x = 0, NppiRect_y = 0, NppiRect_width = 2, NppiRect_height = 2\<rparr>,
        eInterpolation = NPPI_INTER_LINEAR, nppStreamCtx = ()\<rparr>])"
proof -
  have a: "ImageNPP_new filling_device 2 2 =
      Inr \<lparr>width = 2, height = 2, pitch = 8, data = replicate 16 0\<rparr>"
    by code_simp
  from MipMapChunk_resize_arguments [OF a, of device_2x2 "()" None] a show ?thesis
    by (simp add: Let_def filling_device_def device_2x2_def int32_def NPP_SUCCESS_def)
qed

text \<open>
  Claim C8. When the resize primitive reports a failure, the error propagates to the
  caller of the constructor at once, with no retry and no fallback: the primitive has
  been called once, and the constructor ends in the exception of \<^verbatim>\<open>NPP_CHECK_NPP\<close>, with
  no chunk.
\<close>

theorem MipMapChunk_device_failure_propagates:
  assumes "ImageNPP_new dev w h = Inr gpuMemory"
    and "fst (nppiResize_8u_C4R_Ctx dev
                (MipMapChunk_resize_call srcImage w h streamCtx
                   (case eInterp of None \<Rightarrow> NPPI_INTER_LINEAR | Some m \<Rightarrow> m) gpuMemory))
           < NPP_SUCCESS"
  shows "MipMapChunk_new dev srcImage w h streamCtx eInterp =
           (Inl (Exception ''NPP_CHECK_NPP''),
            [MipMapChunk_resize_call srcImage w h streamCtx
               (case eInterp of None \<Rightarrow> NPPI_INTER_LINEAR | Some m \<Rightarrow> m) gpuMemory])"
  using assms
  by (auto simp: MipMapChunk_new_def NPP_CHECK_NPP_def Let_def split: prod.splits)

text \<open>A device whose primitive answers every call with the status -1000.\<close>

theorem MipMapChunk_device_failure_propagates_witness:
  "ImageNPP_new failing_device 1 1 =
     Inr \<lparr>width = 1, height = 1, pitch = 4, data = [0, 0, 0, 0]\<rparr> \<and>
   fst (nppiResize_8u_C4R_Ctx failing_device
          (MipMapChunk_resize_call device_2x2 1 1 () NPPI_INTER_CUBIC
             \<lparr>width = 1, height = 1, pitch = 4, data = [0, 0, 0, 0]\<rparr>)) = - 1000 \<and>
   fst (MipMapChunk_new failing_device device_2x2 1 1 () (Some NPPI_INTER_CUBIC)) =
     Inl (Exception ''NPP_CHECK_NPP'') \<and>
   length (snd (MipMapChunk_new failing_device device_2x2 1 1 () (Some NPPI_INTER_CUBIC))) = 1"
proof -
  have a: "ImageNPP_new failing_device 1 1 =
      Inr \<lparr>width = 1, height = 1, pitch = 4, data = [0, 0, 0, 0]\<rparr>"
    by (simp add: ImageNPP_new_def uint32_def device_defs numeral_eq_Suc)
  have b: "fst (nppiResize_8u_C4R_Ctx failing_device
          (MipMapChunk_resize_call device_2x2 1 1 () NPPI_INTER_CUBIC
             \<lparr>width = 1, height = 1, pitch = 4, data = [0, 0, 0, 0]\<rparr>)) = - 1000"
    by (simp add: device_defs)
  then have c: "fst (nppiResize_8u_C4R_Ctx failing_device
          (MipMapChunk_resize_call device_2x2 1 1 ()
             (case Some NPPI_INTER_CUBIC of None \<Rightarrow> NPPI_INTER_LINEAR | Some m \<Rightarrow> m)
             \<lparr>width = 1, height = 1, pitch = 4, data = [0, 0, 0, 0]\<rparr>)) < NPP_SUCCESS"
    by (simp add: NPP_SUCCESS_def)
  from MipMapChunk_device_failure_propagates [OF a c] a b show ?thesis by simp
qed

end
